theory Spec2Isabelle
  imports Complex_Main "HOL-Library.Word"
begin

section \<open>SceneManager.cpp: data model\<close>

text \<open>
  The development embeds \<^verbatim>\<open>Source/SceneManager.cpp\<close>. The C++ type \<^verbatim>\<open>float\<close> is read as
  \<^typ>\<open>real\<close>: rounding, signed zeros, infinities and NaN are not part of the model, so every
  statement about \<^verbatim>\<open>ucRot\<close> and \<^verbatim>\<open>rotate\<close> is a statement about the exact arithmetic the
  code writes down. The literal \<^verbatim>\<open>3.14159\<close> of the source is kept as the rational it denotes.
\<close>

type_synonym vec3 = "real \<times> real \<times> real"
type_synonym vec4 = "real \<times> real \<times> real \<times> real"

text \<open>
  \<^verbatim>\<open>SceneManager.h\<close> declares the two table entry types. \<^verbatim>\<open>TEXTURE_INFO.ID\<close> is the
  unsigned 32-bit name that \<^verbatim>\<open>glGenTextures(1, &m_textureIDs[i].ID)\<close> writes through a
  \<^verbatim>\<open>GLuint*\<close>; the constructor's \<^verbatim>\<open>ID = -1\<close> therefore stores \<^verbatim>\<open>0xFFFFFFFF\<close>.
\<close>

record OBJECT_MATERIAL =
  ambientColor :: vec3
  ambientStrength :: real
  diffuseColor :: vec3
  specularColor :: vec3
  shininess :: real
  tag :: string

record TEXTURE_INFO =
  tag :: string
  ID :: "32 word"

text \<open>
  The members of \<^verbatim>\<open>SceneManager\<close> that the modelled methods read or write. The pointer
  \<^verbatim>\<open>m_pShaderManager\<close> is \<^const>\<open>None\<close> when it is \<^verbatim>\<open>NULL\<close>. \<^verbatim>\<open>m_textureIDs\<close> is the
  fixed array (a list whose length is the array's size), \<^verbatim>\<open>m_loadedTextures\<close> the counter,
  an \<^verbatim>\<open>int\<close> that starts at 0 and is only ever incremented, one step per registered
  texture, so that a natural number holds it; \<^verbatim>\<open>m_objectMaterials\<close> is the
  \<^verbatim>\<open>std::vector\<close>.
\<close>

record SceneManager =
  m_pShaderManager :: "nat option"
  m_textureIDs :: "TEXTURE_INFO list"
  m_loadedTextures :: nat
  m_objectMaterials :: "OBJECT_MATERIAL list"

text \<open>
  What C++ leaves undefined is a value of the model: an access to \<^verbatim>\<open>m_textureIDs\<close> at an
  index outside the array, and a member call through a null \<^verbatim>\<open>m_pShaderManager\<close>.
\<close>

datatype error = OutOfBounds nat | NullDereference

section \<open>The rotation helpers\<close>

text \<open>
  \<^verbatim>\<open>void ucRot(float hUc, float vUc, float* hP, float* vP)\<close>: both new coordinates are
  computed from the old pair before either is stored.
\<close>

definition ucRot :: "real \<Rightarrow> real \<Rightarrow> real \<times> real \<Rightarrow> real \<times> real" where
  "ucRot hUc vUc p =
     (case p of (hP, vP) \<Rightarrow>
        (let h = vP * - vUc + hP * hUc;
             v = hP * vUc + vP * hUc
         in (h, v)))"

text \<open>
  \<^verbatim>\<open>void rotate(float* xPos, float* yPos, float* zPos, float x, float y, float z)\<close>; the
  three pointed-to coordinates are passed and returned as a triple.
\<close>

definition rotate_pos :: "vec3 \<Rightarrow> real \<Rightarrow> real \<Rightarrow> real \<Rightarrow> vec3" where
  "rotate_pos pos x y z =
     (case pos of (xPos, yPos, zPos) \<Rightarrow>
        (let z1 = z * (3.14159 / 180.0);
             zh = cos z1;
             zv = sin z1;
             (xPos1, yPos1) = ucRot zh zv (xPos, yPos);
             y1 = y * (3.14159 / 180.0);
             yh = cos (- y1);
             yv = sin (- y1);
             (xPos2, zPos1) = ucRot yh yv (xPos1, zPos);
             x1 = x * (3.14159 / 180.0);
             xh = cos x1;
             xv = sin x1;
             (yPos2, zPos2) = ucRot xh xv (yPos1, zPos1)
         in (xPos2, yPos2, zPos2)))"

text \<open>
  The reading of \<^verbatim>\<open>rotate\<close> in the specification, written from its words and independent of
  the code: a planar rotation by an angle \<open>a\<close> of a coordinate pair, and the composition of
  three of them (by \<open>z\<close> on the x-y pair, by the negated \<open>y\<close> on the x-z pair, by \<open>x\<close> on the
  y-z pair), each angle in degrees multiplied by a conversion factor \<open>k\<close>.
\<close>

definition planar_rotation :: "real \<Rightarrow> real \<times> real \<Rightarrow> real \<times> real" where
  "planar_rotation a p =
     (case p of (h, v) \<Rightarrow> (h * cos a - v * sin a, h * sin a + v * cos a))"

definition composite_rotation :: "real \<Rightarrow> vec3 \<Rightarrow> real \<Rightarrow> real \<Rightarrow> real \<Rightarrow> vec3" where
  "composite_rotation k pos x y z =
     (case pos of (xPos, yPos, zPos) \<Rightarrow>
        (let (x1, y1) = planar_rotation (z * k) (xPos, yPos);
             (x2, z1) = planar_rotation (- (y * k)) (x1, zPos);
             (y2, z2) = planar_rotation (x * k) (y1, z1)
         in (x2, y2, z2)))"

section \<open>The texture table\<close>

text \<open>
  Modelled from the spec: the declaration \<^verbatim>\<open>TEXTURE_INFO m_textureIDs[...]\<close> is in
  \<^verbatim>\<open>SceneManager.h\<close>, which is not among the sources. The specification fixes the capacity
  at 16, and the constructor initialises exactly the indices 0 to 15.
\<close>

definition texture_capacity :: nat where
  "texture_capacity = 16"

text \<open>
  \<^verbatim>\<open>SceneManager::SceneManager(ShaderManager* pShaderManager)\<close>. The tag written into every
  slot is the two-character string \<^verbatim>\<open>"/0"\<close>.
\<close>

definition SceneManager_new :: "nat option \<Rightarrow> SceneManager" where
  "SceneManager_new pShaderManager =
     \<lparr>m_pShaderManager = pShaderManager,
      m_textureIDs = replicate texture_capacity \<lparr>TEXTURE_INFO.tag = ''/0'', ID = - 1\<rparr>,
      m_loadedTextures = 0,
      m_objectMaterials = []\<rparr>"

text \<open>
  \<^verbatim>\<open>bool SceneManager::CreateGLTexture(const char* filename, std::string tag)\<close>. The two
  answers of the environment are arguments: \<open>img\<close> is what \<^verbatim>\<open>stbi_load\<close> returned
  (\<^const>\<open>None\<close> for a null pointer, otherwise width, height and channel count), \<open>textureID\<close>
  is the name \<^verbatim>\<open>glGenTextures\<close> stored. The calls that configure the OpenGL texture object
  do not touch the table and are left out. The result is the returned flag with the new
  state, or \<^const>\<open>OutOfBounds\<close> when the store \<^verbatim>\<open>m_textureIDs[m_loadedTextures]\<close> is outside
  the array.
\<close>

definition CreateGLTexture ::
  "(int \<times> int \<times> int) option \<Rightarrow> 32 word \<Rightarrow> string \<Rightarrow> SceneManager \<Rightarrow> error + (bool \<times> SceneManager)"
where
  "CreateGLTexture img textureID tag' s =
     (case img of
        Some (width, height, colorChannels) \<Rightarrow>
          (let registered =
                 (if m_loadedTextures s < length (m_textureIDs s)
                  then Inr (True,
                    s\<lparr>m_textureIDs := (m_textureIDs s)
                         [m_loadedTextures s := \<lparr>TEXTURE_INFO.tag = tag', ID = textureID\<rparr>],
                      m_loadedTextures := m_loadedTextures s + 1\<rparr>)
                  else Inl (OutOfBounds (m_loadedTextures s)))
           in if colorChannels = 3 then registered
              else if colorChannels = 4 then registered
              else Inr (False, s))
      | None \<Rightarrow> Inr (False, s))"

text \<open>
  A sequence of \<^verbatim>\<open>CreateGLTexture\<close> calls whose return values are ignored, as
  \<^verbatim>\<open>LoadSceneTextures\<close> issues them; each call comes with the environment's two answers.
\<close>

fun CreateGLTexture_calls ::
  "((int \<times> int \<times> int) option \<times> 32 word \<times> string) list \<Rightarrow> SceneManager \<Rightarrow> error + SceneManager"
where
  "CreateGLTexture_calls [] s = Inr s"
| "CreateGLTexture_calls ((img, textureID, tag') # cs) s =
     (case CreateGLTexture img textureID tag' s of
        Inl e \<Rightarrow> Inl e
      | Inr (bReturn, s') \<Rightarrow> CreateGLTexture_calls cs s')"

text \<open>
  \<^verbatim>\<open>void SceneManager::LoadSceneTextures()\<close>: four loads with the tags of the source.
  \<^verbatim>\<open>BindGLTextures\<close> only reads the table.
\<close>

definition LoadSceneTextures ::
  "((int \<times> int \<times> int) option \<times> 32 word) list \<Rightarrow> SceneManager \<Rightarrow> error + SceneManager"
where
  "LoadSceneTextures answers s =
     CreateGLTexture_calls
       (map (\<lambda>((img, textureID), tag'). (img, textureID, tag'))
          (zip answers [''pages'', ''page'', ''rubiks'', ''shadow''])) s"

text \<open>
  The representation invariant of the table: the array has its declared size and the
  counter does not point beyond it. The entries in use are the first
  \<^verbatim>\<open>m_loadedTextures\<close> ones.
\<close>

definition table_ok :: "SceneManager \<Rightarrow> bool" where
  "table_ok s =
     (length (m_textureIDs s) = texture_capacity \<and> m_loadedTextures s \<le> texture_capacity)"

definition loaded :: "SceneManager \<Rightarrow> TEXTURE_INFO list" where
  "loaded s = take (m_loadedTextures s) (m_textureIDs s)"

text \<open>
  The OpenGL entry points that name textures. \<^verbatim>\<open>glGenTextures(n, p)\<close> is recorded with
  \<open>n\<close> and the index of the table entry whose \<^verbatim>\<open>ID\<close> the pointer \<open>p\<close> addresses;
  \<^verbatim>\<open>glDeleteTextures(n, p)\<close> likewise.
\<close>

datatype gl_call = glGenTextures nat nat | glDeleteTextures nat nat

fun is_deletion :: "gl_call \<Rightarrow> bool" where
  "is_deletion (glDeleteTextures n i) = True"
| "is_deletion (glGenTextures n i) = False"

text \<open>
  \<^verbatim>\<open>void SceneManager::DestroyGLTextures()\<close>: the loop over \<open>i\<close>, with the calls issued so
  far. \<open>names i\<close> is the name the driver writes into \<^verbatim>\<open>m_textureIDs[i].ID\<close>.
\<close>

function DestroyGLTextures_loop ::
  "(nat \<Rightarrow> 32 word) \<Rightarrow> nat \<Rightarrow> SceneManager \<Rightarrow> gl_call list \<Rightarrow> error + (SceneManager \<times> gl_call list)"
where
  "DestroyGLTextures_loop names i s calls =
     (if i < m_loadedTextures s then
        (if i < length (m_textureIDs s) then
           DestroyGLTextures_loop names (i + 1)
             (s\<lparr>m_textureIDs := (m_textureIDs s)[i := (m_textureIDs s ! i)\<lparr>ID := names i\<rparr>]\<rparr>)
             (calls @ [glGenTextures 1 i])
         else Inl (OutOfBounds i))
      else Inr (s, calls))"
  by pat_completeness auto
termination
  by (relation "measure (\<lambda>(names, i, s, calls). m_loadedTextures s - i)") auto

declare DestroyGLTextures_loop.simps [simp del]

definition DestroyGLTextures ::
  "(nat \<Rightarrow> 32 word) \<Rightarrow> SceneManager \<Rightarrow> error + (SceneManager \<times> gl_call list)"
where
  "DestroyGLTextures names s = DestroyGLTextures_loop names 0 s []"

text \<open>
  \<^verbatim>\<open>SceneManager::~SceneManager()\<close>: the pointer is cleared, then the textures are
  handled by \<^verbatim>\<open>DestroyGLTextures\<close>.
\<close>

definition SceneManager_delete ::
  "(nat \<Rightarrow> 32 word) \<Rightarrow> SceneManager \<Rightarrow> error + (SceneManager \<times> gl_call list)"
where
  "SceneManager_delete names s = DestroyGLTextures names (s\<lparr>m_pShaderManager := None\<rparr>)"

text \<open>
  \<^verbatim>\<open>int SceneManager::FindTextureID(std::string tag)\<close>: the \<^verbatim>\<open>while\<close> loop over its three
  locals. The stored unsigned \<^verbatim>\<open>ID\<close> is converted to \<^verbatim>\<open>int\<close> on assignment.
\<close>

function FindTextureID_loop ::
  "SceneManager \<Rightarrow> string \<Rightarrow> int \<Rightarrow> nat \<Rightarrow> bool \<Rightarrow> error + int"
where
  "FindTextureID_loop s tag' textureID index bFound =
     (if index < m_loadedTextures s \<and> bFound = False then
        (if index < length (m_textureIDs s) then
           (if TEXTURE_INFO.tag (m_textureIDs s ! index) = tag'
            then FindTextureID_loop s tag' (sint (ID (m_textureIDs s ! index))) index True
            else FindTextureID_loop s tag' textureID (index + 1) bFound)
         else Inl (OutOfBounds index))
      else Inr textureID)"
  by pat_completeness auto
termination
  by (relation "measure (\<lambda>(s, tag', textureID, index, bFound).
        2 * (m_loadedTextures s - index) + (if bFound then 0 else 1))") auto

declare FindTextureID_loop.simps [simp del]

definition FindTextureID :: "SceneManager \<Rightarrow> string \<Rightarrow> error + int" where
  "FindTextureID s tag' = FindTextureID_loop s tag' (- 1) 0 False"

text \<open>\<^verbatim>\<open>int SceneManager::FindTextureSlot(std::string tag)\<close>, the same loop keeping the index.\<close>

function FindTextureSlot_loop ::
  "SceneManager \<Rightarrow> string \<Rightarrow> int \<Rightarrow> nat \<Rightarrow> bool \<Rightarrow> error + int"
where
  "FindTextureSlot_loop s tag' textureSlot index bFound =
     (if index < m_loadedTextures s \<and> bFound = False then
        (if index < length (m_textureIDs s) then
           (if TEXTURE_INFO.tag (m_textureIDs s ! index) = tag'
            then FindTextureSlot_loop s tag' (int index) index True
            else FindTextureSlot_loop s tag' textureSlot (index + 1) bFound)
         else Inl (OutOfBounds index))
      else Inr textureSlot)"
  by pat_completeness auto
termination
  by (relation "measure (\<lambda>(s, tag', textureSlot, index, bFound).
        2 * (m_loadedTextures s - index) + (if bFound then 0 else 1))") auto

declare FindTextureSlot_loop.simps [simp del]

definition FindTextureSlot :: "SceneManager \<Rightarrow> string \<Rightarrow> error + int" where
  "FindTextureSlot s tag' = FindTextureSlot_loop s tag' (- 1) 0 False"

section \<open>The material table\<close>

text \<open>
  \<^verbatim>\<open>bool SceneManager::FindMaterial(std::string tag, OBJECT_MATERIAL& material)\<close>: the loop
  over \<^verbatim>\<open>index\<close>, \<^verbatim>\<open>bFound\<close> and the referenced \<^verbatim>\<open>material\<close>, of which five fields are
  assigned on a match; then the function, which returns its flag with the final content of
  the reference parameter.
\<close>

function FindMaterial_loop ::
  "OBJECT_MATERIAL list \<Rightarrow> string \<Rightarrow> nat \<Rightarrow> bool \<Rightarrow> OBJECT_MATERIAL \<Rightarrow> OBJECT_MATERIAL"
where
  "FindMaterial_loop ms tag' index bFound material =
     (if index < length ms \<and> bFound = False then
        (if OBJECT_MATERIAL.tag (ms ! index) = tag'
         then FindMaterial_loop ms tag' index True
                (material\<lparr>ambientColor := ambientColor (ms ! index),
                          ambientStrength := ambientStrength (ms ! index),
                          diffuseColor := diffuseColor (ms ! index),
                          specularColor := specularColor (ms ! index),
                          shininess := shininess (ms ! index)\<rparr>)
         else FindMaterial_loop ms tag' (index + 1) bFound material)
      else material)"
  by pat_completeness auto
termination
  by (relation "measure (\<lambda>(ms, tag', index, bFound, material).
        2 * (length ms - index) + (if bFound then 0 else 1))") auto

declare FindMaterial_loop.simps [simp del]

definition FindMaterial ::
  "SceneManager \<Rightarrow> string \<Rightarrow> OBJECT_MATERIAL \<Rightarrow> bool \<times> OBJECT_MATERIAL"
where
  "FindMaterial s tag' material =
     (if length (m_objectMaterials s) = 0 then (False, material)
      else (True, FindMaterial_loop (m_objectMaterials s) tag' 0 False material))"

text \<open>\<^verbatim>\<open>void SceneManager::DefineObjectMaterials()\<close>: five \<^verbatim>\<open>push_back\<close> calls.\<close>

definition DefineObjectMaterials :: "SceneManager \<Rightarrow> SceneManager" where
  "DefineObjectMaterials s =
     (let defaultMaterial =
            \<lparr>ambientColor = (0.8, 0.8, 0.8), ambientStrength = 100.5,
             diffuseColor = (0.7, 0.7, 0.8), specularColor = (0.3, 0.5, 0.8),
             shininess = 100.5, OBJECT_MATERIAL.tag = ''default_material''\<rparr>;
          tableMaterial =
            \<lparr>ambientColor = (1.0, 1.0, 1.0), ambientStrength = 1.0,
             diffuseColor = (0.8, 0.7, 0.8), specularColor = (0.05, 0.05, 0.05),
             shininess = 1.1, OBJECT_MATERIAL.tag = ''table_material''\<rparr>;
          paperMaterial =
            \<lparr>ambientColor = (0.99, 0.99, 0.99), ambientStrength = 0.99,
             diffuseColor = (0.99, 0.99, 0.99), specularColor = (0.1, 0.1, 0.1),
             shininess = 100.0, OBJECT_MATERIAL.tag = ''paper_material''\<rparr>;
          wireMaterial =
            \<lparr>ambientColor = (0.8, 0.8, 0.8), ambientStrength = 100.5,
             diffuseColor = (0.7, 0.7, 0.8), specularColor = (0.3, 0.5, 0.8),
             shininess = 100.5, OBJECT_MATERIAL.tag = ''wire_material''\<rparr>;
          rubiksMaterial =
            \<lparr>ambientColor = (0.5, 0.5, 0.5), ambientStrength = 1.0,
             diffuseColor = (0.9, 0.5, 0.5), specularColor = (0.1, 0.1, 0.9),
             shininess = 1.0, OBJECT_MATERIAL.tag = ''rubiks_material''\<rparr>
      in s\<lparr>m_objectMaterials := m_objectMaterials s @
             [defaultMaterial, tableMaterial, paperMaterial, wireMaterial, rubiksMaterial]\<rparr>)"

section \<open>Shader uniforms and draw calls\<close>

text \<open>
  The calls \<^verbatim>\<open>RenderScene\<close> directs at its two collaborators, in program order: the
  setters of \<^verbatim>\<open>ShaderManager\<close>, each with the uniform's name and value, and the draw
  methods of \<^verbatim>\<open>ShapeMeshes\<close>. The matrix \<^verbatim>\<open>translation * rotationX * rotationY * rotationZ * scale\<close>
  is kept as the five arguments of \<^verbatim>\<open>SetTransformations\<close> that determine it.
\<close>

datatype mesh =
  PlaneMesh | CylinderMesh | TaperedCylinderMesh | BoxMesh | SphereMesh | ConeMesh | TorusMesh

datatype mat4 = ModelView vec3 real real real vec3

datatype call =
    setMat4Value string mat4
  | setIntValue string int
  | setVec4Value string vec4
  | setSampler2DValue string int
  | setVec2Value string "real \<times> real"
  | setVec3Value string vec3
  | setFloatValue string real
  | DrawMesh mesh

definition g_ModelName :: string where "g_ModelName = ''model''"
definition g_ColorValueName :: string where "g_ColorValueName = ''objectColor''"
definition g_TextureValueName :: string where "g_TextureValueName = ''objectTexture''"
definition g_UseTextureName :: string where "g_UseTextureName = ''bUseTexture''"
definition g_UseLightingName :: string where "g_UseLightingName = ''bUseLighting''"

text \<open>\<^verbatim>\<open>void SceneManager::SetTransformations(...)\<close>\<close>

definition SetTransformations ::
  "SceneManager \<Rightarrow> vec3 \<Rightarrow> real \<Rightarrow> real \<Rightarrow> real \<Rightarrow> vec3 \<Rightarrow> call list"
where
  "SetTransformations s scaleXYZ XrotationDegrees YrotationDegrees ZrotationDegrees positionXYZ =
     (let modelView =
            ModelView scaleXYZ XrotationDegrees YrotationDegrees ZrotationDegrees positionXYZ
      in if m_pShaderManager s \<noteq> None then [setMat4Value g_ModelName modelView] else [])"

text \<open>\<^verbatim>\<open>void SceneManager::SetShaderColor(...)\<close>; \<^verbatim>\<open>false\<close> is passed as the integer 0.\<close>

definition SetShaderColor :: "SceneManager \<Rightarrow> real \<Rightarrow> real \<Rightarrow> real \<Rightarrow> real \<Rightarrow> call list" where
  "SetShaderColor s redColorValue greenColorValue blueColorValue alphaValue =
     (let currentColor = (redColorValue, greenColorValue, blueColorValue, alphaValue)
      in if m_pShaderManager s \<noteq> None
         then [setIntValue g_UseTextureName 0, setVec4Value g_ColorValueName currentColor]
         else [])"

text \<open>\<^verbatim>\<open>void SceneManager::SetShaderTexture(std::string textureTag)\<close>; \<^verbatim>\<open>true\<close> is passed as 1.\<close>

definition SetShaderTexture :: "SceneManager \<Rightarrow> string \<Rightarrow> error + call list" where
  "SetShaderTexture s textureTag =
     (if m_pShaderManager s \<noteq> None then
        (case FindTextureSlot s textureTag of
           Inl e \<Rightarrow> Inl e
         | Inr textureID \<Rightarrow>
             Inr [setIntValue g_UseTextureName 1,
                  setSampler2DValue g_TextureValueName textureID])
      else Inr [])"

text \<open>\<^verbatim>\<open>void SceneManager::SetTextureUVScale(float u, float v)\<close>\<close>

definition SetTextureUVScale :: "SceneManager \<Rightarrow> real \<Rightarrow> real \<Rightarrow> call list" where
  "SetTextureUVScale s u v =
     (if m_pShaderManager s \<noteq> None then [setVec2Value ''UVscale'' (u, v)] else [])"

text \<open>
  \<^verbatim>\<open>void SceneManager::SetShaderMaterial(std::string materialTag)\<close>. The local
  \<^verbatim>\<open>OBJECT_MATERIAL material\<close> is not initialised; its content at the call of
  \<^verbatim>\<open>FindMaterial\<close> is the argument \<open>uninitialised\<close>. The setters are called without a
  null check.
\<close>

definition SetShaderMaterial ::
  "SceneManager \<Rightarrow> OBJECT_MATERIAL \<Rightarrow> string \<Rightarrow> error + call list"
where
  "SetShaderMaterial s uninitialised materialTag =
     (if length (m_objectMaterials s) > 0 then
        (case FindMaterial s materialTag uninitialised of
           (bReturn, material) \<Rightarrow>
             if bReturn = True then
               (if m_pShaderManager s = None then Inl NullDereference
                else Inr [setVec3Value ''material.ambientColor'' (ambientColor material),
                          setFloatValue ''material.ambientStrength'' (ambientStrength material),
                          setVec3Value ''material.diffuseColor'' (diffuseColor material),
                          setVec3Value ''material.specularColor'' (specularColor material),
                          setFloatValue ''material.shininess'' (shininess material)])
             else Inr [])
      else Inr [])"

text \<open>Statements in sequence: the calls of each, up to the first one that fails.\<close>

fun seq :: "(error + call list) list \<Rightarrow> error + call list" where
  "seq [] = Inr []"
| "seq (Inl e # steps) = Inl e"
| "seq (Inr cs # steps) = (case seq steps of Inl e \<Rightarrow> Inl e | Inr cs' \<Rightarrow> Inr (cs @ cs'))"

section \<open>RenderScene\<close>

text \<open>
  The block that \<^verbatim>\<open>RenderScene\<close> repeats for every shape of an object: the scale from the
  shape's size, the shape's offset turned by the object's rotation (\<^verbatim>\<open>rotate\<close>) and added
  to the object's position, the object's rotation plus the shape's own, and
  \<^verbatim>\<open>SetTransformations\<close> with the three.
\<close>

definition place_shape ::
  "SceneManager \<Rightarrow> vec3 \<Rightarrow> vec3 \<Rightarrow> vec3 \<Rightarrow> vec3 \<Rightarrow> vec3 \<Rightarrow> call list"
where
  "place_shape s objRot objPos sz rot pos =
     (case objRot of (obj_xRot, obj_yRot, obj_zRot) \<Rightarrow>
      case objPos of (obj_x, obj_y, obj_z) \<Rightarrow>
      case rot of (xRot, yRot, zRot) \<Rightarrow>
        (let scaleXYZ = sz;
             (xPos, yPos, zPos) = rotate_pos pos obj_xRot obj_yRot obj_zRot;
             positionXYZ = (obj_x + xPos, obj_y + yPos, obj_z + zPos);
             XrotationDegrees = obj_xRot + xRot;
             YrotationDegrees = obj_yRot + yRot;
             ZrotationDegrees = obj_zRot + zRot
         in SetTransformations s scaleXYZ XrotationDegrees YrotationDegrees ZrotationDegrees
              positionXYZ))"

text \<open>The desk plane, and the material reset that follows its draw call.\<close>

definition RenderScene_desk ::
  "SceneManager \<Rightarrow> (nat \<Rightarrow> OBJECT_MATERIAL) \<Rightarrow> (error + call list) list"
where
  "RenderScene_desk s uninitialised =
     [Inr (SetTransformations s (20.0, 1.0, 20.0) 0.0 0.0 0.0 (0.0, 0.0, 0.0)),
      Inr (SetShaderColor s 1 1 1 1),
      SetShaderTexture s ''shadow'',
      Inr (SetTextureUVScale s 1.1 1.1),
      SetShaderMaterial s (uninitialised 0) ''table_material'',
      Inr [DrawMesh PlaneMesh],
      SetShaderMaterial s (uninitialised 1) ''default_material'']"

text \<open>The pencil: five cylinders, a tapered cylinder, two clip boxes, a sphere, a cone.\<close>

definition RenderScene_pencil :: "SceneManager \<Rightarrow> (error + call list) list" where
  "RenderScene_pencil s =
     (let pencil_Rot = (50.0, 20.0, 245.0);
          pencil_Pos = (0.2, 2.8, 5.4);
          xSz1 = [0.3, 0.4, 0.25, 0.4, 0.075];
          ySz1 = [0.4, 0.6, 11.2, 10.8, 0.2];
          zSz1 = [0.3, 0.4, 0.25, 0.4, 0.075];
          xRot1 = [0.0, 0.0, 0.0, 0.0, 0.0];
          yRot1 = [0.0, 0.0, 0.0, 0.0, 0.0];
          zRot1 = [0.0, 0.0, 0.0, 0.0, 0.0];
          xPos1 = [0.0, 0.0, 0.0, 0.0, 0.0];
          yPos1 = [0.0, 0.4, 1.0, 1.4, 14.8];
          zPos1 = [0.0, 0.0, 0.0, 0.0, 0.0];
          r1 = [0.9, 0.1, 0.1, 0.7, 0.1];
          g1 = [0.9, 0.1, 0.1, 0.7, 0.1];
          b1 = [0.9, 0.1, 0.1, 0.7, 0.1];
          a1 = [0.9, 0.9, 0.9, 0.5, 0.9];
          xSz3 = [0.45, 0.4];
          ySz3 = [0.9, 3.4];
          zSz3 = [0.3, 0.12];
          xRot3 = [0.0, 0.0];
          yRot3 = [0.0, 0.0];
          zRot3 = [0.0, 0.0];
          xPos3 = [0.0, 0.0];
          yPos3 = [2.25, 2.2];
          zPos3 = [0.4, 0.6]
      in concat (map (\<lambda>i.
             [Inr (place_shape s pencil_Rot pencil_Pos (xSz1 ! i, ySz1 ! i, zSz1 ! i)
                     (xRot1 ! i, yRot1 ! i, zRot1 ! i) (xPos1 ! i, yPos1 ! i, zPos1 ! i)),
              Inr (SetShaderColor s (r1 ! i) (g1 ! i) (b1 ! i) (a1 ! i)),
              Inr [DrawMesh CylinderMesh]]) [0..<5])
         @ [Inr (place_shape s pencil_Rot pencil_Pos (0.4, 2.2, 0.4) (0.0, 0.0, 0.0)
                   (0.0, 12.2, 0.0)),
            Inr (SetShaderColor s 0.1 0.1 0.1 0.9),
            Inr [DrawMesh TaperedCylinderMesh]]
         @ concat (map (\<lambda>i.
             [Inr (place_shape s pencil_Rot pencil_Pos (xSz3 ! i, ySz3 ! i, zSz3 ! i)
                     (xRot3 ! i, yRot3 ! i, zRot3 ! i)
                     (xPos3 ! i, yPos3 ! i + ySz3 ! i / 2, zPos3 ! i)),
              Inr (SetShaderColor s 1 0.4 0.1 0.9),
              Inr [DrawMesh BoxMesh]]) [0..<2])
         @ [Inr (place_shape s pencil_Rot pencil_Pos (0.2, 0.2, 0.1) (0.0, 0.0, 0.0)
                   (0.0, 5.3, 0.52)),
            Inr (SetShaderColor s 1 0.4 0.1 0.7),
            Inr [DrawMesh SphereMesh],
            Inr (place_shape s pencil_Rot pencil_Pos (0.2, 0.6, 0.2) (0.0, 0.0, 0.0)
                   (0.0, 14.4, 0.0)),
            Inr (SetShaderColor s 0.1 0.1 0.1 0.9),
            Inr [DrawMesh ConeMesh]])"

text \<open>
  The notebook: the box, the page plane, the material reset, and seventeen rings whose
  arrays are filled inside the loop; \<^verbatim>\<open>8 - i\<close> is an \<^verbatim>\<open>int\<close> and goes negative.
\<close>

definition RenderScene_notebook ::
  "SceneManager \<Rightarrow> (nat \<Rightarrow> OBJECT_MATERIAL) \<Rightarrow> (error + call list) list"
where
  "RenderScene_notebook s uninitialised =
     (let notebook_Rot = (0.0, 5.0, 0.0);
          notebook_Pos = (5.5, 0.0, 0.0)
      in [Inr (place_shape s notebook_Rot notebook_Pos (10.0, 2.0, 14.0) (0.0, 0.0, 0.0)
                 (0.0, 0.0 + 2.0 / 2, 0.0)),
          Inr (SetShaderColor s 1 1 1 1),
          SetShaderTexture s ''pages'',
          Inr (SetTextureUVScale s 1.0 1.0),
          Inr [DrawMesh BoxMesh],
          Inr (place_shape s notebook_Rot notebook_Pos (5.0, 1.0, 7.0) (0.0, - 1.0, 0.0)
                 (0.1, 2.02, 0.0)),
          Inr (SetShaderColor s 1 1 1 1),
          SetShaderTexture s ''page'',
          Inr (SetTextureUVScale s 1.0 1.0),
          SetShaderMaterial s (uninitialised 2) ''paper_material'',
          Inr [DrawMesh PlaneMesh],
          SetShaderMaterial s (uninitialised 3) ''default_material'']
         @ concat (map (\<lambda>i.
             (let xSz8 = 0.25; ySz8 = 0.25; zSz8 = 0.25;
                  xRot8 = 0.0; yRot8 = 0.0; zRot8 = 0.0;
                  xPos8 = - 5.0; yPos8 = 1.0;
                  zPos8 = 13.5 / 17 * real_of_int (8 - int i)
              in [Inr (place_shape s notebook_Rot notebook_Pos (xSz8, ySz8, zSz8)
                         (xRot8, yRot8, zRot8) (xPos8, yPos8 + ySz8 / 2, zPos8)),
                  Inr (SetShaderColor s 0.7 0.7 0.7 0.9),
                  Inr [DrawMesh TorusMesh]])) [0..<17]))"

text \<open>The four Rubik's cubes.\<close>

definition RenderScene_rubiks ::
  "SceneManager \<Rightarrow> (nat \<Rightarrow> OBJECT_MATERIAL) \<Rightarrow> (error + call list) list"
where
  "RenderScene_rubiks s uninitialised =
     (let rubiks_Rot = (0.0, 0.0, 0.0);
          rubiks_Pos = (- 5.5, 0.0, 0.0);
          xSz9 = [3.0, 3.0, 3.0, 3.0];
          ySz9 = [3.0, 3.0, 3.0, 3.0];
          zSz9 = [3.0, 3.0, 3.0, 3.0];
          xRot9 = [0.0, 180.0, 0.0, 90.0];
          yRot9 = [0.0, 0.0, - 90.0, 180.0];
          zRot9 = [- 90.0, 0.0, 0.0, 135.0];
          xPos9 = [0.0, - 3.0, - 3.0, - 1.5];
          yPos9 = [0.0, 0.0, 0.0, 3.0];
          zPos9 = [0.0, 1.5, - 1.5, 0.0]
      in concat (map (\<lambda>i.
             [Inr (place_shape s rubiks_Rot rubiks_Pos (xSz9 ! i, ySz9 ! i, zSz9 ! i)
                     (xRot9 ! i, yRot9 ! i, zRot9 ! i)
                     (xPos9 ! i, yPos9 ! i + ySz9 ! i / 2, zPos9 ! i)),
              Inr (SetShaderColor s 1 1 1 1),
              SetShaderTexture s ''rubiks'',
              Inr (SetTextureUVScale s 1.0 1.0),
              SetShaderMaterial s (uninitialised (4 + i)) ''rubiks_material'',
              Inr [DrawMesh BoxMesh]]) [0..<4]))"

text \<open>
  \<^verbatim>\<open>void SceneManager::RenderScene()\<close>: the four parts in program order. Every call of
  \<^verbatim>\<open>SetShaderMaterial\<close> has its own uninitialised local; \<open>uninitialised k\<close> is the content
  of the local at the \<open>k\<close>-th of the frame's eight calls, counted from 0.
\<close>

definition RenderScene ::
  "SceneManager \<Rightarrow> (nat \<Rightarrow> OBJECT_MATERIAL) \<Rightarrow> error + call list"
where
  "RenderScene s uninitialised =
     seq (RenderScene_desk s uninitialised @ RenderScene_pencil s
          @ RenderScene_notebook s uninitialised @ RenderScene_rubiks s uninitialised)"

subsection \<open>Reading a frame's calls\<close>

text \<open>The meshes drawn, in order.\<close>

fun draws :: "call list \<Rightarrow> mesh list" where
  "draws [] = []"
| "draws (DrawMesh m # cs) = m # draws cs"
| "draws (c # cs) = draws cs"

text \<open>
  The name under which a call reaches its collaborator: the uniform's name, or the draw
  method of \<^verbatim>\<open>ShapeMeshes\<close>.
\<close>

fun draw_method :: "mesh \<Rightarrow> string" where
  "draw_method PlaneMesh = ''DrawPlaneMesh''"
| "draw_method CylinderMesh = ''DrawCylinderMesh''"
| "draw_method TaperedCylinderMesh = ''DrawTaperedCylinderMesh''"
| "draw_method BoxMesh = ''DrawBoxMesh''"
| "draw_method SphereMesh = ''DrawSphereMesh''"
| "draw_method ConeMesh = ''DrawConeMesh''"
| "draw_method TorusMesh = ''DrawTorusMesh''"

fun call_name :: "call \<Rightarrow> string" where
  "call_name (setMat4Value n v) = n"
| "call_name (setIntValue n v) = n"
| "call_name (setVec4Value n v) = n"
| "call_name (setSampler2DValue n v) = n"
| "call_name (setVec2Value n v) = n"
| "call_name (setVec3Value n v) = n"
| "call_name (setFloatValue n v) = n"
| "call_name (DrawMesh m) = draw_method m"

text \<open>
  The stage a call belongs to, by the name of its uniform: 0 for the transform
  (\<^verbatim>\<open>model\<close>), 1 for color and texture (\<^verbatim>\<open>objectColor\<close>, \<^verbatim>\<open>objectTexture\<close>,
  \<^verbatim>\<open>bUseTexture\<close>, \<^verbatim>\<open>UVscale\<close>), 2 for the material (\<^verbatim>\<open>material.*\<close>), 3 for a draw call,
  4 for any other uniform.
\<close>

definition name_stage :: "string \<Rightarrow> nat" where
  "name_stage n =
     (if n = ''model'' then 0
      else if n = ''objectColor'' \<or> n = ''objectTexture'' \<or> n = ''bUseTexture'' \<or> n = ''UVscale''
        then 1
      else if take 9 n = ''material.'' then 2
      else 4)"

fun stage :: "call \<Rightarrow> nat" where
  "stage (setMat4Value n v) = name_stage n"
| "stage (setIntValue n v) = name_stage n"
| "stage (setVec4Value n v) = name_stage n"
| "stage (setSampler2DValue n v) = name_stage n"
| "stage (setVec2Value n v) = name_stage n"
| "stage (setVec3Value n v) = name_stage n"
| "stage (setFloatValue n v) = name_stage n"
| "stage (DrawMesh m) = 3"

text \<open>
  The calls of a frame cut after every draw call: one group per drawn shape, holding the
  uniform assignments issued since the previous draw call and the draw call itself.
\<close>

fun per_draw :: "call list \<Rightarrow> call list \<Rightarrow> call list list" where
  "per_draw cur [] = []"
| "per_draw cur (DrawMesh m # cs) = (cur @ [DrawMesh m]) # per_draw [] cs"
| "per_draw cur (c # cs) = per_draw (cur @ [c]) cs"

text \<open>
  The ordering as the specification words it: within each group the stages never go back
  (transform, then color and texture, then material, then the draw call).
\<close>

definition ordered_as_specified :: "call list \<Rightarrow> bool" where
  "ordered_as_specified frame = list_all (\<lambda>g. sorted (map stage g)) (per_draw [] frame)"

text \<open>
  The ordering with the material assignments that open a group set aside. A group is in
  order when, after any material assignments at its head, it consists of exactly one
  transform assignment, then at least one color or texture assignment, then any number of
  material assignments, then the draw call and nothing else.
\<close>

definition group_in_order :: "call list \<Rightarrow> bool" where
  "group_in_order g =
     (case dropWhile (\<lambda>k. k = 2) (map stage g) of
        [] \<Rightarrow> False
      | k # rest \<Rightarrow>
          k = 0 \<and> takeWhile (\<lambda>k. k = 1) rest \<noteq> [] \<and>
          dropWhile (\<lambda>k. k = 2) (dropWhile (\<lambda>k. k = 1) rest) = [3])"

definition ordered_from_transform :: "call list \<Rightarrow> bool" where
  "ordered_from_transform frame = list_all group_in_order (per_draw [] frame)"

text \<open>The positions (from 0) of the groups that open with a material assignment.\<close>

definition material_first :: "call list \<Rightarrow> nat list" where
  "material_first frame =
     map fst (filter (\<lambda>(i, g). map stage (take 1 g) = [2])
                (zip [0..<length (per_draw [] frame)] (per_draw [] frame)))"

section \<open>Reference values and example states\<close>

text \<open>
  The five assignments of a lookup's match, as one operation: the fields of an entry
  \<open>e\<close> copied into \<open>material\<close>, whose tag is left as it was.
\<close>

definition copy_material :: "OBJECT_MATERIAL \<Rightarrow> OBJECT_MATERIAL \<Rightarrow> OBJECT_MATERIAL" where
  "copy_material e material =
     material\<lparr>ambientColor := ambientColor e,
              ambientStrength := ambientStrength e,
              diffuseColor := diffuseColor e,
              specularColor := specularColor e,
              shininess := shininess e\<rparr>"

text \<open>The draw calls of a frame as the specification counts them.\<close>

definition expected_draws :: "mesh list" where
  "expected_draws =
     [PlaneMesh] @ replicate 5 CylinderMesh @ [TaperedCylinderMesh] @ replicate 2 BoxMesh
     @ [SphereMesh] @ [ConeMesh] @ [BoxMesh] @ [PlaneMesh] @ replicate 17 TorusMesh
     @ replicate 4 BoxMesh"

text \<open>
  The names of a frame written out shape by shape, with the draw methods of
  \<^verbatim>\<open>ShapeMeshes\<close>: what a recorded trace of one frame shows. The material names appear
  only when materials are defined.
\<close>

definition expected_names :: "bool \<Rightarrow> string list" where
  "expected_names materials_defined =
     (let transform = [''model''];
          color = [''bUseTexture'', ''objectColor''];
          texture = [''bUseTexture'', ''objectTexture'', ''UVscale''];
          material =
            (if materials_defined
             then [''material.ambientColor'', ''material.ambientStrength'',
                   ''material.diffuseColor'', ''material.specularColor'',
                   ''material.shininess'']
             else [])
      in transform @ color @ texture @ material @ [''DrawPlaneMesh'']
         @ material
         @ concat (replicate 5 (transform @ color @ [''DrawCylinderMesh'']))
         @ transform @ color @ [''DrawTaperedCylinderMesh'']
         @ concat (replicate 2 (transform @ color @ [''DrawBoxMesh'']))
         @ transform @ color @ [''DrawSphereMesh'']
         @ transform @ color @ [''DrawConeMesh'']
         @ transform @ color @ texture @ [''DrawBoxMesh'']
         @ transform @ color @ texture @ material @ [''DrawPlaneMesh'']
         @ material
         @ concat (replicate 17 (transform @ color @ [''DrawTorusMesh'']))
         @ concat (replicate 4 (transform @ color @ texture @ material @ [''DrawBoxMesh''])))"

text \<open>Concrete states and values at which the theorems below are instantiated.\<close>

definition blank_material :: OBJECT_MATERIAL where
  "blank_material =
     \<lparr>ambientColor = (0, 0, 0), ambientStrength = 0, diffuseColor = (0, 0, 0),
      specularColor = (0, 0, 0), shininess = 0, OBJECT_MATERIAL.tag = []\<rparr>"

text \<open>Every uninitialised local of a frame holding the blank material.\<close>

definition blank_locals :: "nat \<Rightarrow> OBJECT_MATERIAL" where
  "blank_locals k = blank_material"

text \<open>The state after four successful loads of \<^verbatim>\<open>LoadSceneTextures\<close>.\<close>

definition textured_scene :: SceneManager where
  "textured_scene =
     (SceneManager_new (Some 0))
       \<lparr>m_textureIDs :=
          [\<lparr>TEXTURE_INFO.tag = ''pages'', ID = 1\<rparr>, \<lparr>TEXTURE_INFO.tag = ''page'', ID = 2\<rparr>,
           \<lparr>TEXTURE_INFO.tag = ''rubiks'', ID = 3\<rparr>, \<lparr>TEXTURE_INFO.tag = ''shadow'', ID = 4\<rparr>]
          @ replicate 12 \<lparr>TEXTURE_INFO.tag = ''/0'', ID = - 1\<rparr>,
        m_loadedTextures := 4\<rparr>"

definition prepared_scene :: SceneManager where
  "prepared_scene = DefineObjectMaterials textured_scene"

text \<open>A state in which a texture tag and a material tag each occur twice.\<close>

definition duplicate_scene :: SceneManager where
  "duplicate_scene =
     \<lparr>m_pShaderManager = Some 0,
      m_textureIDs =
        [\<lparr>TEXTURE_INFO.tag = ''wood'', ID = 7\<rparr>, \<lparr>TEXTURE_INFO.tag = ''steel'', ID = 8\<rparr>,
         \<lparr>TEXTURE_INFO.tag = ''wood'', ID = 9\<rparr>]
        @ replicate 13 \<lparr>TEXTURE_INFO.tag = ''/0'', ID = - 1\<rparr>,
      m_loadedTextures = 3,
      m_objectMaterials =
        [blank_material\<lparr>shininess := 1, OBJECT_MATERIAL.tag := ''glass''\<rparr>,
         blank_material\<lparr>shininess := 2, OBJECT_MATERIAL.tag := ''glass''\<rparr>]\<rparr>"

text \<open>The state after sixteen successful loads: every slot of the array is in use.\<close>

definition full_scene :: SceneManager where
  "full_scene =
     (SceneManager_new None)
       \<lparr>m_textureIDs :=
          map (\<lambda>i. \<lparr>TEXTURE_INFO.tag = ''texture'', ID = word_of_nat i\<rparr>) [1..<17],
        m_loadedTextures := 16\<rparr>"

section \<open>Properties of the rotation helpers\<close>

text \<open>
  C6. With all three angles zero the composite rotation is the identity: for every position
  \<open>(x, y, z)\<close>, \<^verbatim>\<open>rotate(&x, &y, &z, 0, 0, 0)\<close> leaves \<open>x\<close>, \<open>y\<close> and \<open>z\<close> unchanged.
\<close>

theorem rotate_zero_angles_identity: "rotate_pos (x, y, z) 0 0 0 = (x, y, z)"
  by (simp add: rotate_pos_def ucRot_def)


subsection \<open>The literal 3.14159 against \<open>\<pi>\<close>\<close>

text \<open>
  \<^verbatim>\<open>rotate\<close> converts with \<^verbatim>\<open>3.14159 / 180.0\<close>. At 90 degrees the converted angle is
  \<open>314159 / 200000\<close>, just below \<open>\<pi> / 2\<close>. Its cosine is bounded with the Maclaurin
  polynomial of degree 12 and the Lagrange remainder of order 14.
\<close>

lemma lessThan_14: "{..<14::nat} = {0, 1, 2, 3, 4, 5, 6, 7, 8, 9, 10, 11, 12, 13}"
  by (auto, arith)

lemma cos_sum14:
  "(\<Sum>m<14. cos_coeff m * (x::real) ^ m) =
     1 - x^2 / 2 + x^4 / 24 - x^6 / 720 + x^8 / 40320 - x^10 / 3628800 + x^12 / 479001600"
  unfolding lessThan_14 by (simp add: cos_coeff_def fact_numeral)

lemma cos_literal_bounds:
  "0 < cos (314159 / 200000 :: real) \<and> cos (314159 / 200000 :: real) < 2 / 10^6"
proof -
  define x :: real where "x = 314159 / 200000"
  define p :: real where
    "p = 1 - x^2 / 2 + x^4 / 24 - x^6 / 720 + x^8 / 40320 - x^10 / 3628800 + x^12 / 479001600"
  define r :: real where "r = x^14 / 87178291200"
  have xpos: "0 < x" by (simp add: x_def)
  obtain t where t: "cos x = (\<Sum>m<14. cos_coeff m * x ^ m)
      + cos (t + 1 / 2 * real (14::nat) * pi) / fact 14 * x ^ 14"
    using Maclaurin_cos_expansion2 [of x 14] xpos by auto
  define c where "c = cos (t + 1 / 2 * real (14::nat) * pi)"
  have c: "- 1 \<le> c" "c \<le> 1" by (simp_all add: c_def)
  have rpos: "0 \<le> r" by (simp add: r_def x_def)
  have eq: "cos x = p + c * r"
    using t cos_sum14 [of x] by (simp add: c_def p_def r_def fact_numeral)
  have "- r \<le> c * r" "c * r \<le> r"
    using c rpos
    by (simp_all add: mult_right_mono [of "- 1" c r, simplified]
        mult_right_mono [of c 1 r, simplified])
  moreover have "0 < p - r"
    unfolding p_def r_def x_def by (simp add: power_divide)
  moreover have "p + r < 2 / 10^6"
    unfolding p_def r_def x_def by (simp add: power_divide)
  ultimately show ?thesis using eq unfolding x_def by linarith
qed

lemma pi_gt_literal: "314159 / 100000 < pi"
proof (rule ccontr)
  assume "\<not> 314159 / 100000 < pi"
  then have "pi / 2 \<le> 314159 / 200000" by simp
  moreover have "314159 / 200000 \<le> pi" using pi_ge_two by simp
  ultimately have "cos (314159 / 200000) \<le> cos (pi / 2)"
    by (intro cos_monotone_0_pi_le) simp_all
  then show False using cos_literal_bounds by simp
qed

lemma sin_literal_bounds:
  "1 - 1 / 10^11 < sin (314159 / 200000 :: real) \<and> sin (314159 / 200000 :: real) \<le> 1"
proof -
  define s :: real where "s = sin (314159 / 200000)"
  define c :: real where "c = cos (314159 / 200000)"
  have c: "0 < c" "c < 2 / 10^6" using cos_literal_bounds by (simp_all add: c_def)
  have "0 < s" unfolding s_def using pi_gt_literal by (intro sin_gt_zero) simp_all
  moreover have s1: "s \<le> 1" by (simp add: s_def)
  ultimately have "s * s \<le> s" by (simp add: mult_left_le_one_le)
  moreover have "s * s + c * c = 1"
    unfolding s_def c_def using sin_cos_squared_add [of "314159 / 200000"]
    by (simp add: power2_eq_square)
  moreover have "c * c < (2 / 10^6) * (2 / 10^6)"
    using c by (intro mult_strict_mono) simp_all
  ultimately have "1 - (2 / 10^6) * (2 / 10^6) < s" by linarith
  then show ?thesis using s1 unfolding s_def by simp
qed

subsection \<open>The composition\<close>

text \<open>
  C2, as amended. \<^verbatim>\<open>ucRot\<close> called with the cosine and sine of an angle is the planar
  rotation by that angle, and for every position and all angles \<open>x\<close>, \<open>y\<close>, \<open>z\<close> in degrees
  \<^verbatim>\<open>rotate\<close> is the composition of the planar rotation by \<open>z\<close> on the (xPos, yPos) pair, then
  by the negation of \<open>y\<close> on the (xPos, zPos) pair, then by \<open>x\<close> on the (yPos, zPos) pair, every
  angle converted by multiplying by \<open>3.14159 / 180\<close>, the constant the source writes, and
  not by \<open>\<pi> / 180\<close>.
\<close>

theorem rotate_is_composite_rotation:
  "ucRot (cos a) (sin a) p = planar_rotation a p \<and>
   rotate_pos pos x y z = composite_rotation (3.14159 / 180) pos x y z"
  by (simp add: rotate_pos_def composite_rotation_def ucRot_def planar_rotation_def Let_def
      split: prod.splits)

text \<open>
  With the factor \<open>\<pi> / 180\<close> of the claim the two differ: at 180 degrees about z the code
  leaves the y coordinate of \<open>(1, 0, 0)\<close> at \<open>sin 3.14159\<close>, which is positive.
\<close>

theorem rotate_pi_factor_counterexample:
  "rotate_pos (1, 0, 0) 0 0 180 \<noteq> composite_rotation (pi / 180) (1, 0, 0) 0 0 180"
proof -
  have "0 < sin (314159 / 100000 :: real)"
    using pi_gt_literal by (intro sin_gt_zero) simp_all
  then show ?thesis
    by (simp add: rotate_pos_def composite_rotation_def ucRot_def planar_rotation_def Let_def)
qed

text \<open>
  C7, as amended. \<^verbatim>\<open>rotate\<close> with angles \<open>x = 0\<close>, \<open>y = 0\<close>, \<open>z = 90\<close> takes the position
  \<open>(1, 0, 0)\<close> to \<open>(cos 1.570795, sin 1.570795, 0)\<close>: the x coordinate is positive and below
  \<open>2 / 10^6\<close>, the y coordinate is above \<open>1 - 1 / 10^11\<close> and at most 1, the z coordinate is 0.
\<close>

theorem rotate_z90_value:
  "rotate_pos (1, 0, 0) 0 0 90 = (cos (314159 / 200000), sin (314159 / 200000), 0) \<and>
   0 < cos (314159 / 200000 :: real) \<and> cos (314159 / 200000 :: real) < 2 / 10^6 \<and>
   1 - 1 / 10^11 < sin (314159 / 200000 :: real) \<and> sin (314159 / 200000 :: real) \<le> 1"
  using cos_literal_bounds sin_literal_bounds by (simp add: rotate_pos_def ucRot_def Let_def)

text \<open>The result is not \<open>(0, 1, 0)\<close>: its x coordinate is not zero.\<close>

theorem rotate_z90_counterexample: "rotate_pos (1, 0, 0) 0 0 90 \<noteq> (0, 1, 0)"
  using cos_literal_bounds by (simp add: rotate_pos_def ucRot_def Let_def)


section \<open>Properties of the texture table\<close>

subsection \<open>The invariant and the example states\<close>

lemma replicate_12: "replicate 12 x = [x, x, x, x, x, x, x, x, x, x, x, x]"
  by (simp add: eval_nat_numeral)

lemma replicate_13: "replicate 13 x = [x, x, x, x, x, x, x, x, x, x, x, x, x]"
  by (simp add: eval_nat_numeral)

lemma replicate_16: "replicate 16 x = [x, x, x, x, x, x, x, x, x, x, x, x, x, x, x, x]"
  by (simp add: eval_nat_numeral)

lemma upt_from_1:
  "[Suc 0..<17] = [1, 2, 3, 4, 5, 6, 7, 8, 9, 10, 11, 12, 13, 14, 15, 16]"
  "[Suc 0..<18] = [1, 2, 3, 4, 5, 6, 7, 8, 9, 10, 11, 12, 13, 14, 15, 16, 17]"
  by code_simp+

lemma upt_loops:
  "[0..<2] = [0, 1]"
  "[0..<4] = [0, 1, 2, 3]"
  "[0..<5] = [0, 1, 2, 3, 4]"
  "[0..<17] = [0, 1, 2, 3, 4, 5, 6, 7, 8, 9, 10, 11, 12, 13, 14, 15, 16]"
  by code_simp+

text \<open>Every state built by the constructor and \<^verbatim>\<open>CreateGLTexture\<close> satisfies the invariant.\<close>

lemma table_ok_new: "table_ok (SceneManager_new p)"
  by (simp add: table_ok_def SceneManager_new_def)

lemma CreateGLTexture_table_ok:
  "table_ok s \<Longrightarrow> CreateGLTexture img textureID t s = Inr (b, s') \<Longrightarrow> table_ok s'"
  by (auto simp: CreateGLTexture_def table_ok_def Let_def split: option.splits if_splits)

lemma CreateGLTexture_calls_table_ok:
  "table_ok s \<Longrightarrow> CreateGLTexture_calls cs s = Inr s' \<Longrightarrow> table_ok s'"
proof (induction cs arbitrary: s)
  case Nil
  then show ?case by simp
next
  case (Cons c cs)
  obtain img textureID t where c: "c = (img, textureID, t)" by (cases c) auto
  from Cons.prems(2) obtain b s1 where
    s1: "CreateGLTexture img textureID t s = Inr (b, s1)"
    and rest: "CreateGLTexture_calls cs s1 = Inr s'"
    by (auto simp: c split: sum.splits)
  from CreateGLTexture_table_ok [OF Cons.prems(1) s1] rest show ?case
    by (rule Cons.IH)
qed

lemma textured_scene_reached:
  "LoadSceneTextures [(Some (512, 512, 3), 1), (Some (512, 512, 3), 2),
      (Some (256, 256, 4), 3), (Some (64, 64, 3), 4)] (SceneManager_new (Some 0))
   = Inr textured_scene"
  by (simp add: LoadSceneTextures_def CreateGLTexture_def SceneManager_new_def
      texture_capacity_def textured_scene_def replicate_16 replicate_12 Let_def)

lemma table_ok_prepared: "table_ok prepared_scene"
  by (simp add: table_ok_def prepared_scene_def textured_scene_def DefineObjectMaterials_def
      SceneManager_new_def texture_capacity_def)

lemma loaded_prepared:
  "loaded prepared_scene =
     [\<lparr>TEXTURE_INFO.tag = ''pages'', ID = 1\<rparr>, \<lparr>TEXTURE_INFO.tag = ''page'', ID = 2\<rparr>,
      \<lparr>TEXTURE_INFO.tag = ''rubiks'', ID = 3\<rparr>, \<lparr>TEXTURE_INFO.tag = ''shadow'', ID = 4\<rparr>]"
  by (simp add: loaded_def prepared_scene_def textured_scene_def DefineObjectMaterials_def
      SceneManager_new_def eval_nat_numeral)

lemma shader_prepared: "m_pShaderManager prepared_scene = Some 0"
  by (simp add: prepared_scene_def textured_scene_def DefineObjectMaterials_def
      SceneManager_new_def)

lemma materials_prepared: "m_objectMaterials prepared_scene \<noteq> []"
  by (simp add: prepared_scene_def DefineObjectMaterials_def Let_def)

subsection \<open>The lookup loops\<close>

lemma loaded_drop:
  "table_ok s \<Longrightarrow> index < m_loadedTextures s \<Longrightarrow>
   drop index (loaded s) = (m_textureIDs s ! index) # drop (Suc index) (loaded s)"
  by (simp add: loaded_def table_ok_def Cons_nth_drop_Suc [symmetric])

lemma FindTextureID_loop_found: "FindTextureID_loop s t tid index True = Inr tid"
  by (subst FindTextureID_loop.simps) simp

lemma FindTextureID_loop_find:
  "table_ok s \<Longrightarrow> index \<le> m_loadedTextures s \<Longrightarrow>
   FindTextureID_loop s t tid index False =
     Inr (case find (\<lambda>e. TEXTURE_INFO.tag e = t) (drop index (loaded s)) of
            Some e \<Rightarrow> sint (ID e) | None \<Rightarrow> tid)"
proof (induction "m_loadedTextures s - index" arbitrary: index)
  case 0
  then have "drop index (loaded s) = []" by (simp add: loaded_def)
  with 0 show ?case by (subst FindTextureID_loop.simps) simp
next
  case (Suc k)
  then have lt: "index < m_loadedTextures s" by simp
  with Suc.prems have len: "index < length (m_textureIDs s)" by (simp add: table_ok_def)
  show ?case
  proof (cases "TEXTURE_INFO.tag (m_textureIDs s ! index) = t")
    case True
    with lt len show ?thesis
      by (subst FindTextureID_loop.simps)
        (simp add: loaded_drop [OF Suc.prems(1) lt] FindTextureID_loop_found)
  next
    case False
    have "FindTextureID_loop s t tid (Suc index) False =
      Inr (case find (\<lambda>e. TEXTURE_INFO.tag e = t) (drop (Suc index) (loaded s)) of
            Some e \<Rightarrow> sint (ID e) | None \<Rightarrow> tid)"
      using Suc.hyps(2) lt by (intro Suc.hyps(1) Suc.prems(1)) simp_all
    with False lt len show ?thesis
      by (subst FindTextureID_loop.simps) (simp add: loaded_drop [OF Suc.prems(1) lt])
  qed
qed

lemma FindTextureSlot_loop_found: "FindTextureSlot_loop s t slot index True = Inr slot"
  by (subst FindTextureSlot_loop.simps) simp

lemma FindTextureSlot_loop_absent:
  "table_ok s \<Longrightarrow> index \<le> m_loadedTextures s \<Longrightarrow>
   t \<notin> set (map TEXTURE_INFO.tag (drop index (loaded s))) \<Longrightarrow>
   FindTextureSlot_loop s t slot index False = Inr slot"
proof (induction "m_loadedTextures s - index" arbitrary: index)
  case 0
  then show ?case by (subst FindTextureSlot_loop.simps) simp
next
  case (Suc k)
  then have lt: "index < m_loadedTextures s" by simp
  with Suc.prems have len: "index < length (m_textureIDs s)" by (simp add: table_ok_def)
  from Suc.prems(3) have ne: "TEXTURE_INFO.tag (m_textureIDs s ! index) \<noteq> t"
    and rest: "t \<notin> set (map TEXTURE_INFO.tag (drop (Suc index) (loaded s)))"
    by (auto simp: loaded_drop [OF Suc.prems(1) lt])
  have "FindTextureSlot_loop s t slot (Suc index) False = Inr slot"
    using Suc.hyps(2) lt rest by (intro Suc.hyps(1) Suc.prems(1)) simp_all
  with ne lt len show ?case
    by (subst FindTextureSlot_loop.simps) simp
qed

lemma FindTextureSlot_loop_total:
  "table_ok s \<Longrightarrow> index \<le> m_loadedTextures s \<Longrightarrow>
   \<exists>k. FindTextureSlot_loop s t slot index b = Inr k"
proof (induction "m_loadedTextures s - index" arbitrary: index b slot)
  case 0
  then show ?case by (subst FindTextureSlot_loop.simps) simp
next
  case (Suc k)
  then have lt: "index < m_loadedTextures s" by simp
  with Suc.prems have len: "index < length (m_textureIDs s)" by (simp add: table_ok_def)
  have next_ok: "\<exists>k. FindTextureSlot_loop s t slot (Suc index) False = Inr k"
    using Suc.hyps(2) lt by (intro Suc.hyps(1) Suc.prems(1)) simp_all
  show ?case
  proof (cases b)
    case True
    then show ?thesis by (simp add: FindTextureSlot_loop_found)
  next
    case False
    with next_ok lt len show ?thesis
      by (subst FindTextureSlot_loop.simps) (simp add: FindTextureSlot_loop_found)
  qed
qed

lemma FindTextureSlot_total: "table_ok s \<Longrightarrow> \<exists>k. FindTextureSlot s t = Inr k"
  unfolding FindTextureSlot_def by (rule FindTextureSlot_loop_total) simp_all

lemma FindMaterial_loop_found: "FindMaterial_loop ms t index True material = material"
  by (subst FindMaterial_loop.simps) simp

lemma FindMaterial_loop_find:
  "index \<le> length ms \<Longrightarrow>
   FindMaterial_loop ms t index False material =
     (case find (\<lambda>e. OBJECT_MATERIAL.tag e = t) (drop index ms) of
        Some e \<Rightarrow> copy_material e material | None \<Rightarrow> material)"
proof (induction "length ms - index" arbitrary: index)
  case 0
  then show ?case by (subst FindMaterial_loop.simps) simp
next
  case (Suc k)
  then have lt: "index < length ms" by simp
  then have d: "drop index ms = ms ! index # drop (Suc index) ms"
    by (simp add: Cons_nth_drop_Suc)
  show ?case
  proof (cases "OBJECT_MATERIAL.tag (ms ! index) = t")
    case True
    with lt show ?thesis
      by (subst FindMaterial_loop.simps)
        (simp add: d copy_material_def FindMaterial_loop_found)
  next
    case False
    have "FindMaterial_loop ms t (Suc index) False material =
      (case find (\<lambda>e. OBJECT_MATERIAL.tag e = t) (drop (Suc index) ms) of
        Some e \<Rightarrow> copy_material e material | None \<Rightarrow> material)"
      using Suc.hyps(2) lt by (intro Suc.hyps(1)) simp_all
    with False lt show ?thesis
      by (subst FindMaterial_loop.simps) (simp add: d)
  qed
qed

text \<open>
  C3. For every state of the texture table and every tag, \<^verbatim>\<open>FindTextureID\<close> scans the
  entries in use in insertion order and returns the ID (converted to \<^verbatim>\<open>int\<close>) of the first
  entry whose tag equals the given one, and the sentinel -1 when no entry matches;
  \<^verbatim>\<open>FindMaterial\<close>, when a match exists, copies out the fields of the first-inserted entry
  whose tag equals the given one.
\<close>

theorem lookup_returns_first_match:
  assumes "table_ok s"
  shows "FindTextureID s t =
           Inr (case find (\<lambda>e. TEXTURE_INFO.tag e = t) (loaded s) of
                  Some e \<Rightarrow> sint (ID e) | None \<Rightarrow> - 1) \<and>
         (case find (\<lambda>m. OBJECT_MATERIAL.tag m = t) (m_objectMaterials s) of
            Some m \<Rightarrow> FindMaterial s t material = (True, copy_material m material)
          | None \<Rightarrow> True)"
proof -
  have "FindTextureID s t =
      Inr (case find (\<lambda>e. TEXTURE_INFO.tag e = t) (drop 0 (loaded s)) of
             Some e \<Rightarrow> sint (ID e) | None \<Rightarrow> - 1)"
    unfolding FindTextureID_def using assms by (rule FindTextureID_loop_find) simp
  moreover have "FindMaterial s t material = (True, copy_material m material)"
    if "find (\<lambda>m. OBJECT_MATERIAL.tag m = t) (m_objectMaterials s) = Some m" for m
  proof -
    from that have "m_objectMaterials s \<noteq> []" by auto
    with that show ?thesis by (simp add: FindMaterial_def FindMaterial_loop_find)
  qed
  ultimately show ?thesis by (simp split: option.splits)
qed

text \<open>
  With the tag \<^verbatim>\<open>wood\<close> stored twice (IDs 7 and 9) the lookup answers 7; an absent tag
  gives -1; of two materials tagged \<^verbatim>\<open>glass\<close> the first one's fields are copied.
\<close>

theorem lookup_returns_first_match_witness:
  "table_ok duplicate_scene \<and>
   FindTextureID duplicate_scene ''wood'' = Inr 7 \<and>
   FindTextureID duplicate_scene ''brick'' = Inr (- 1) \<and>
   FindMaterial duplicate_scene ''glass'' blank_material
     = (True, blank_material\<lparr>shininess := 1\<rparr>)"
proof -
  have ok: "table_ok duplicate_scene"
    by (simp add: table_ok_def duplicate_scene_def texture_capacity_def)
  have l: "loaded duplicate_scene =
      [\<lparr>TEXTURE_INFO.tag = ''wood'', ID = 7\<rparr>, \<lparr>TEXTURE_INFO.tag = ''steel'', ID = 8\<rparr>,
       \<lparr>TEXTURE_INFO.tag = ''wood'', ID = 9\<rparr>]"
    by (simp add: loaded_def duplicate_scene_def eval_nat_numeral)
  have m: "m_objectMaterials duplicate_scene =
      [blank_material\<lparr>shininess := 1, OBJECT_MATERIAL.tag := ''glass''\<rparr>,
       blank_material\<lparr>shininess := 2, OBJECT_MATERIAL.tag := ''glass''\<rparr>]"
    by (simp add: duplicate_scene_def)
  show ?thesis
    using ok lookup_returns_first_match [OF ok, of "''wood''" blank_material]
      lookup_returns_first_match [OF ok, of "''brick''" blank_material]
      lookup_returns_first_match [OF ok, of "''glass''" blank_material]
    by (simp add: l m copy_material_def blank_material_def)
qed

subsection \<open>Registering textures\<close>

text \<open>
  C4. The claim is that the table never exceeds its capacity of 16: after every sequence
  of \<^verbatim>\<open>CreateGLTexture\<close> calls on a freshly constructed \<^verbatim>\<open>SceneManager\<close> the counter is at
  most 16 and every new entry is written at an index below 16. The code has no such check.
  Sixteen successful loads fill the table; the seventeenth successful load stores at index
  16, outside the array.
\<close>

theorem CreateGLTexture_seventeenth_call_overflows:
  "CreateGLTexture_calls
     (map (\<lambda>i. (Some (64, 64, 3), word_of_nat i, ''texture'')) [1..<17]) (SceneManager_new None)
     = Inr full_scene \<and>
   m_loadedTextures full_scene = 16 \<and>
   CreateGLTexture_calls
     (map (\<lambda>i. (Some (64, 64, 3), word_of_nat i, ''texture'')) [1..<18]) (SceneManager_new None)
     = Inl (OutOfBounds 16)"
  by (simp add: CreateGLTexture_def SceneManager_new_def texture_capacity_def full_scene_def
      replicate_16 Let_def upt_from_1)

text \<open>
  What \<^verbatim>\<open>CreateGLTexture\<close> does in every state: it returns false with the state
  unchanged when the image fails to decode or its channel count is neither 3 nor 4, and
  it returns false in no other case.
\<close>

lemma CreateGLTexture_failure:
  "img = None \<or> (\<exists>w h c. img = Some (w, h, c) \<and> c \<noteq> 3 \<and> c \<noteq> 4) \<Longrightarrow>
   CreateGLTexture img textureID t s = Inr (False, s)"
  by (auto simp: CreateGLTexture_def Let_def)

lemma CreateGLTexture_false_iff:
  "(\<exists>s'. CreateGLTexture img textureID t s = Inr (False, s')) \<longleftrightarrow>
   (img = None \<or> (\<exists>w h c. img = Some (w, h, c) \<and> c \<noteq> 3 \<and> c \<noteq> 4))"
  by (cases img) (auto simp: CreateGLTexture_def Let_def)

text \<open>
  While the table holds fewer entries than the array has slots, a decoded image with 3 or
  4 channels is registered: one entry with the tag and the generated name is appended to
  the entries in use and the counter goes up by one.
\<close>

lemma CreateGLTexture_success:
  assumes "m_loadedTextures s < length (m_textureIDs s)" and "c = 3 \<or> c = 4"
  shows "\<exists>s'. CreateGLTexture (Some (w, h, c)) textureID t s = Inr (True, s') \<and>
     loaded s' = loaded s @ [\<lparr>TEXTURE_INFO.tag = t, ID = textureID\<rparr>] \<and>
     m_loadedTextures s' = m_loadedTextures s + 1 \<and>
     length (m_textureIDs s') = length (m_textureIDs s)"
  using assms
  by (auto simp: CreateGLTexture_def Let_def loaded_def take_Suc_conv_app_nth)

text \<open>
  C5. The claim is that \<^verbatim>\<open>CreateGLTexture\<close> returns false exactly when the image fails to
  decode or the channel count is neither 3 nor 4, leaving the table unchanged, and that on
  success exactly one entry carrying the tag is appended and \<^verbatim>\<open>m_loadedTextures\<close> goes up
  by one. On the full table, with all 16 slots in use, a load that decodes a 3-channel
  image does neither: it takes the success path, which has no capacity check, and stores
  at index 16, outside the array.
\<close>

theorem CreateGLTexture_full_table_out_of_bounds:
  "m_loadedTextures full_scene = 16 \<and> length (m_textureIDs full_scene) = 16 \<and>
   CreateGLTexture (Some (64, 64, 3)) 17 ''extra'' full_scene = Inl (OutOfBounds 16)"
  by (simp add: CreateGLTexture_def full_scene_def SceneManager_new_def Let_def upt_from_1)

subsection \<open>Teardown\<close>

lemma DestroyGLTextures_loop_calls:
  "m_loadedTextures s \<le> length (m_textureIDs s) \<Longrightarrow> i \<le> m_loadedTextures s \<Longrightarrow>
   \<exists>s'. DestroyGLTextures_loop names i s calls
          = Inr (s', calls @ map (glGenTextures 1) [i..<m_loadedTextures s])"
proof (induction "m_loadedTextures s - i" arbitrary: i s calls)
  case 0
  then show ?case by (subst DestroyGLTextures_loop.simps) simp
next
  case (Suc k)
  then have lt: "i < m_loadedTextures s" by simp
  with Suc.prems have len: "i < length (m_textureIDs s)" by simp
  define s1 where
    "s1 = s\<lparr>m_textureIDs := (m_textureIDs s)[i := (m_textureIDs s ! i)\<lparr>ID := names i\<rparr>]\<rparr>"
  have n: "m_loadedTextures s1 = m_loadedTextures s"
    and l: "length (m_textureIDs s1) = length (m_textureIDs s)"
    by (simp_all add: s1_def)
  have "\<exists>s'. DestroyGLTextures_loop names (Suc i) s1 (calls @ [glGenTextures 1 i])
          = Inr (s', (calls @ [glGenTextures 1 i])
                      @ map (glGenTextures 1) [Suc i..<m_loadedTextures s1])"
    using Suc.hyps(2) Suc.prems lt by (intro Suc.hyps(1)) (simp_all add: n l)
  with lt len show ?case
    by (subst DestroyGLTextures_loop.simps) (simp add: s1_def upt_conv_Cons)
qed

text \<open>
  C9. The claim is that teardown releases the loaded textures: one texture-deletion call
  for each of the \<^verbatim>\<open>m_loadedTextures\<close> entries. \<^verbatim>\<open>DestroyGLTextures\<close>, called from the
  destructor, instead calls \<^verbatim>\<open>glGenTextures\<close> once per entry: it issues
  \<^verbatim>\<open>m_loadedTextures\<close> name-generation calls and no deletion call.
\<close>

theorem destructor_generates_instead_of_deleting:
  assumes "table_ok s"
  shows "\<exists>s'. SceneManager_delete names s
            = Inr (s', map (glGenTextures 1) [0..<m_loadedTextures s]) \<and>
          filter is_deletion (map (glGenTextures 1) [0..<m_loadedTextures s]) = []"
proof -
  have "\<exists>s'. DestroyGLTextures_loop names 0 (s\<lparr>m_pShaderManager := None\<rparr>) []
          = Inr (s', [] @ map (glGenTextures 1)
                           [0..<m_loadedTextures (s\<lparr>m_pShaderManager := None\<rparr>)])"
    using assms by (intro DestroyGLTextures_loop_calls) (simp_all add: table_ok_def)
  moreover have "filter is_deletion (map (glGenTextures 1) [0..<n]) = []" for n
    by (induction n) simp_all
  ultimately show ?thesis
    by (simp add: SceneManager_delete_def DestroyGLTextures_def)
qed

theorem destructor_generates_instead_of_deleting_witness:
  "table_ok prepared_scene \<and>
   (\<exists>s'. SceneManager_delete (\<lambda>i. 100 + word_of_nat i) prepared_scene
            = Inr (s', [glGenTextures 1 0, glGenTextures 1 1, glGenTextures 1 2,
                        glGenTextures 1 3]))"
proof -
  have n: "m_loadedTextures prepared_scene = 4"
    by (simp add: prepared_scene_def textured_scene_def DefineObjectMaterials_def)
  show ?thesis
    using table_ok_prepared
      destructor_generates_instead_of_deleting [OF table_ok_prepared,
        of "\<lambda>i. 100 + word_of_nat i"]
    by (simp add: n upt_loops)
qed

section \<open>Properties of the material table\<close>

text \<open>
  C1. The claim is that for a non-empty material list and a tag that matches no entry,
  \<^verbatim>\<open>FindMaterial\<close> returns false and leaves the output parameter unchanged, and returns true
  only on a match. The code leaves the parameter unchanged but returns true: its last
  statement is \<^verbatim>\<open>return(true)\<close>, whatever \<^verbatim>\<open>bFound\<close> holds.
\<close>

theorem FindMaterial_absent_returns_true:
  assumes "m_objectMaterials s \<noteq> []"
    and "t \<notin> set (map OBJECT_MATERIAL.tag (m_objectMaterials s))"
  shows "FindMaterial s t material = (True, material)"
proof -
  have "find (\<lambda>e. OBJECT_MATERIAL.tag e = t) (m_objectMaterials s) = None"
    using assms(2) by (auto simp: find_None_iff)
  with assms(1) show ?thesis
    by (simp add: FindMaterial_def FindMaterial_loop_find)
qed

theorem FindMaterial_absent_returns_true_witness:
  "m_objectMaterials prepared_scene \<noteq> [] \<and>
   ''glass_material'' \<notin> set (map OBJECT_MATERIAL.tag (m_objectMaterials prepared_scene)) \<and>
   FindMaterial prepared_scene ''glass_material'' blank_material = (True, blank_material)"
proof -
  have b: "''glass_material'' \<notin> set (map OBJECT_MATERIAL.tag (m_objectMaterials prepared_scene))"
    by (simp add: prepared_scene_def textured_scene_def DefineObjectMaterials_def
        SceneManager_new_def Let_def)
  show ?thesis
    using materials_prepared b
      FindMaterial_absent_returns_true [OF materials_prepared b, of blank_material]
    by simp
qed

section \<open>Properties of the shader calls\<close>

lemma FindTextureSlot_absent:
  "table_ok s \<Longrightarrow> t \<notin> set (map TEXTURE_INFO.tag (loaded s)) \<Longrightarrow>
   FindTextureSlot s t = Inr (- 1)"
  unfolding FindTextureSlot_def by (rule FindTextureSlot_loop_absent) simp_all

text \<open>
  C10, as amended. For every tag absent from the texture table, \<^verbatim>\<open>SetShaderTexture\<close> called
  with a non-null shader manager still enables texturing: it sets the \<^verbatim>\<open>bUseTexture\<close>
  uniform to true (1) and passes the sentinel slot value -1 as the \<^verbatim>\<open>objectTexture\<close>
  sampler. With a null shader manager it sets no uniform at all.
\<close>

theorem SetShaderTexture_absent_tag:
  assumes "table_ok s" and "t \<notin> set (map TEXTURE_INFO.tag (loaded s))"
  shows "SetShaderTexture s t =
     (if m_pShaderManager s \<noteq> None
      then Inr [setIntValue ''bUseTexture'' 1, setSampler2DValue ''objectTexture'' (- 1)]
      else Inr [])"
  using FindTextureSlot_absent [OF assms]
  by (simp add: SetShaderTexture_def g_UseTextureName_def g_TextureValueName_def)

theorem SetShaderTexture_absent_tag_witness:
  "table_ok prepared_scene \<and>
   ''marble'' \<notin> set (map TEXTURE_INFO.tag (loaded prepared_scene)) \<and>
   SetShaderTexture prepared_scene ''marble''
     = Inr [setIntValue ''bUseTexture'' 1, setSampler2DValue ''objectTexture'' (- 1)]"
proof -
  have a: "''marble'' \<notin> set (map TEXTURE_INFO.tag (loaded prepared_scene))"
    by (simp add: loaded_prepared)
  show ?thesis
    using table_ok_prepared a SetShaderTexture_absent_tag [OF table_ok_prepared a]
    by (simp add: shader_prepared)
qed

text \<open>
  A \<^verbatim>\<open>SceneManager\<close> constructed with a null shader manager has no texture tagged
  \<^verbatim>\<open>shadow\<close>, and \<^verbatim>\<open>SetShaderTexture\<close> leaves both uniforms untouched.
\<close>

theorem SetShaderTexture_null_manager_counterexample:
  "''shadow'' \<notin> set (map TEXTURE_INFO.tag (loaded (SceneManager_new None))) \<and>
   SetShaderTexture (SceneManager_new None) ''shadow''
     \<noteq> Inr [setIntValue ''bUseTexture'' 1, setSampler2DValue ''objectTexture'' (- 1)]"
  by (simp add: loaded_def SetShaderTexture_def SceneManager_new_def)

subsection \<open>A frame of RenderScene\<close>

lemma place_shape_calls:
  "place_shape s objRot objPos sz rot pos =
     (if m_pShaderManager s \<noteq> None
      then [setMat4Value g_ModelName
              (ModelView sz (fst objRot + fst rot) (fst (snd objRot) + fst (snd rot))
                 (snd (snd objRot) + snd (snd rot))
                 (fst objPos
                    + fst (rotate_pos pos (fst objRot) (fst (snd objRot)) (snd (snd objRot))),
                  fst (snd objPos)
                    + fst (snd (rotate_pos pos (fst objRot) (fst (snd objRot))
                                  (snd (snd objRot)))),
                  snd (snd objPos)
                    + snd (snd (rotate_pos pos (fst objRot) (fst (snd objRot))
                                  (snd (snd objRot))))))]
      else [])"
  by (simp add: place_shape_def SetTransformations_def Let_def case_prod_beta)

lemma SetShaderTexture_calls:
  assumes "table_ok s" "m_pShaderManager s \<noteq> None"
  shows "\<exists>k. SetShaderTexture s t =
           Inr [setIntValue g_UseTextureName 1, setSampler2DValue g_TextureValueName k]"
  using FindTextureSlot_total [OF assms(1), of t] assms(2)
  by (auto simp: SetShaderTexture_def)

lemma SetShaderMaterial_calls:
  assumes "m_pShaderManager s \<noteq> None"
  shows "SetShaderMaterial s u t =
     Inr (if m_objectMaterials s = [] then []
          else [setVec3Value ''material.ambientColor'' (ambientColor (snd (FindMaterial s t u))),
                setFloatValue ''material.ambientStrength''
                  (ambientStrength (snd (FindMaterial s t u))),
                setVec3Value ''material.diffuseColor'' (diffuseColor (snd (FindMaterial s t u))),
                setVec3Value ''material.specularColor''
                  (specularColor (snd (FindMaterial s t u))),
                setFloatValue ''material.shininess'' (shininess (snd (FindMaterial s t u)))])"
  using assms by (auto simp: SetShaderMaterial_def FindMaterial_def)

lemma replicate_loops:
  "replicate 2 x = [x, x]"
  "replicate 4 x = [x, x, x, x]"
  "replicate 5 x = [x, x, x, x, x]"
  "replicate 17 x = [x, x, x, x, x, x, x, x, x, x, x, x, x, x, x, x, x]"
  by (simp_all add: eval_nat_numeral)

lemma expected_draws_list:
  "expected_draws =
     [PlaneMesh, CylinderMesh, CylinderMesh, CylinderMesh, CylinderMesh, CylinderMesh,
      TaperedCylinderMesh, BoxMesh, BoxMesh, SphereMesh, ConeMesh, BoxMesh, PlaneMesh,
      TorusMesh, TorusMesh, TorusMesh, TorusMesh, TorusMesh, TorusMesh, TorusMesh, TorusMesh,
      TorusMesh, TorusMesh, TorusMesh, TorusMesh, TorusMesh, TorusMesh, TorusMesh, TorusMesh,
      TorusMesh, BoxMesh, BoxMesh, BoxMesh, BoxMesh]"
  by (simp add: expected_draws_def eval_nat_numeral)

text \<open>
  The frame of a state with a sound table and a shader manager, computed symbolically: the
  values of the uniforms stay opaque, the names and the draw calls are explicit.
\<close>

lemma RenderScene_frame:
  assumes ok: "table_ok s" and sm: "m_pShaderManager s \<noteq> None"
  shows "\<exists>frame. RenderScene s u = Inr frame \<and>
     map call_name frame = expected_names (m_objectMaterials s \<noteq> []) \<and>
     draws frame = expected_draws \<and>
     length (per_draw [] frame) = 34 \<and>
     ordered_from_transform frame \<and>
     ordered_as_specified frame = (m_objectMaterials s = []) \<and>
     material_first frame = (if m_objectMaterials s = [] then [] else [1, 13])"
proof -
  obtain k1 where k1: "SetShaderTexture s ''shadow'' =
      Inr [setIntValue g_UseTextureName 1, setSampler2DValue g_TextureValueName k1]"
    using SetShaderTexture_calls [OF ok sm] by blast
  obtain k2 where k2: "SetShaderTexture s ''pages'' =
      Inr [setIntValue g_UseTextureName 1, setSampler2DValue g_TextureValueName k2]"
    using SetShaderTexture_calls [OF ok sm] by blast
  obtain k3 where k3: "SetShaderTexture s ''page'' =
      Inr [setIntValue g_UseTextureName 1, setSampler2DValue g_TextureValueName k3]"
    using SetShaderTexture_calls [OF ok sm] by blast
  obtain k4 where k4: "SetShaderTexture s ''rubiks'' =
      Inr [setIntValue g_UseTextureName 1, setSampler2DValue g_TextureValueName k4]"
    using SetShaderTexture_calls [OF ok sm] by blast
  note evals = RenderScene_def RenderScene_desk_def RenderScene_pencil_def
    RenderScene_notebook_def RenderScene_rubiks_def Let_def place_shape_calls
    SetTransformations_def SetShaderColor_def SetTextureUVScale_def
    SetShaderMaterial_calls [OF sm] k1 k2 k3 k4 upt_loops expected_draws_list
    g_ModelName_def g_ColorValueName_def g_TextureValueName_def g_UseTextureName_def
    name_stage_def ordered_from_transform_def group_in_order_def ordered_as_specified_def
    material_first_def expected_names_def replicate_loops
  show ?thesis
  proof (cases "m_objectMaterials s = []")
    case True
    with sm show ?thesis by (simp add: evals)
  next
    case False
    with sm show ?thesis by (simp add: evals)
  qed
qed

text \<open>
  C8, as amended. With a sound texture table and a non-null shader manager,
  \<^verbatim>\<open>RenderScene\<close> returns a frame whose sequence of uniform names and draw calls is the
  fixed sequence \<open>expected_names\<close> (with the \<^verbatim>\<open>material.*\<close> names when materials are
  defined, without them otherwise), with exactly 34 draw calls (1 desk plane, 5 pencil
  cylinders, 1 tapered cylinder, 2 clip boxes, 1 sphere, 1 cone, 1 notebook box, 1 page
  plane, 17 tori, 4 Rubik's-cube boxes) and one group of calls per draw call. Every group,
  after any material assignments at its head, consists of exactly one transform assignment,
  then color and texture assignments (at least one), then material assignments, then its
  draw call. A group opens with material assignments only when materials are defined, and
  then only the groups of the first pencil cylinder (the 2nd draw call) and of the first
  torus (the 14th): there the \<^verbatim>\<open>material.*\<close> assignments of
  \<^verbatim>\<open>SetShaderMaterial("default_material")\<close> precede the shape's transform.
\<close>

theorem RenderScene_draws_and_order:
  assumes "table_ok s" and "m_pShaderManager s \<noteq> None"
  shows "\<exists>frame. RenderScene s uninitialised = Inr frame \<and>
     map call_name frame = expected_names (m_objectMaterials s \<noteq> []) \<and>
     draws frame = expected_draws \<and>
     length (draws frame) = 34 \<and>
     length (per_draw [] frame) = 34 \<and>
     ordered_from_transform frame \<and>
     material_first frame = (if m_objectMaterials s = [] then [] else [1, 13])"
proof -
  from RenderScene_frame [OF assms, of uninitialised] obtain frame where
    frame: "RenderScene s uninitialised = Inr frame"
    "map call_name frame = expected_names (m_objectMaterials s \<noteq> [])"
    "draws frame = expected_draws"
    "length (per_draw [] frame) = 34"
    "ordered_from_transform frame"
    "material_first frame = (if m_objectMaterials s = [] then [] else [1, 13])"
    by blast
  moreover have "length expected_draws = 34"
    by (simp add: expected_draws_def)
  ultimately show ?thesis by simp
qed

theorem RenderScene_draws_and_order_witness:
  "table_ok duplicate_scene \<and> m_pShaderManager duplicate_scene \<noteq> None \<and>
   (\<exists>frame. RenderScene duplicate_scene blank_locals = Inr frame \<and>
      map call_name frame = expected_names True \<and>
      draws frame = expected_draws \<and> length (draws frame) = 34 \<and>
      length (per_draw [] frame) = 34 \<and>
      ordered_from_transform frame \<and> material_first frame = [1, 13])"
proof -
  have ok: "table_ok duplicate_scene"
    by (simp add: table_ok_def duplicate_scene_def texture_capacity_def)
  have sm: "m_pShaderManager duplicate_scene \<noteq> None"
    by (simp add: duplicate_scene_def)
  have ms: "m_objectMaterials duplicate_scene \<noteq> []"
    by (simp add: duplicate_scene_def)
  show ?thesis
    using ok sm ms RenderScene_draws_and_order [OF ok sm, of blank_locals]
    by simp
qed

text \<open>
  In the prepared scene the frame is not ordered as the claim says: the group of the
  first pencil cylinder opens with the \<^verbatim>\<open>material.*\<close> assignments of the default material.
\<close>

theorem RenderScene_order_counterexample:
  "\<not> isl (RenderScene prepared_scene blank_locals) \<and>
   \<not> ordered_as_specified (projr (RenderScene prepared_scene blank_locals))"
proof -
  have sm: "m_pShaderManager prepared_scene \<noteq> None"
    by (simp add: shader_prepared)
  from RenderScene_frame [OF table_ok_prepared sm, of blank_locals] obtain frame where
    "RenderScene prepared_scene blank_locals = Inr frame"
    "ordered_as_specified frame = (m_objectMaterials prepared_scene = [])"
    by blast
  with materials_prepared show ?thesis by simp
qed

end
